theory Spec2Isabelle
  imports Main "HOL-Library.Char_ord" "HOL-Library.List_Lexorder"
begin

section \<open>Values\<close>

text \<open>
  What \<^verbatim>\<open>json.load\<close> returns. An object is kept as the list of its items in
  insertion order, which is the order a Python dict iterates in. JSON numbers are
  restricted to integers; the code under study only ever tests a number for truth.
\<close>

datatype json =
    JNull
  | JBool bool
  | JNum int
  | JStr string
  | JArr "json list"
  | JObj "(string \<times> json) list"

text \<open>Python truth value of a decoded JSON value (\<^verbatim>\<open>not v\<close> is its negation).\<close>

fun truthy :: "json \<Rightarrow> bool" where
  "truthy JNull = False"
| "truthy (JBool b) = b"
| "truthy (JNum n) = (n \<noteq> 0)"
| "truthy (JStr s) = (s \<noteq> [])"
| "truthy (JArr xs) = (xs \<noteq> [])"
| "truthy (JObj kvs) = (kvs \<noteq> [])"

text \<open>\<^verbatim>\<open>isinstance(v, str)\<close> and \<^verbatim>\<open>isinstance(v, dict)\<close>.\<close>

fun is_str :: "json \<Rightarrow> bool" where
  "is_str (JStr s) = True"
| "is_str _ = False"

fun is_dict :: "json \<Rightarrow> bool" where
  "is_dict (JObj kvs) = True"
| "is_dict _ = False"

fun str_of :: "json \<Rightarrow> string" where
  "str_of (JStr s) = s"
| "str_of _ = []"

text \<open>The exceptions that the modelled code can let escape.\<close>

datatype py_error =
    AttributeError
  | TypeError
  | StopIteration
  | FileNotFoundError
  | IsADirectoryError
  | JSONDecodeError
  | AssertionError

section \<open>Dictionaries\<close>

text \<open>
  A dict is an association list. \<open>dict_get\<close> is \<^verbatim>\<open>key in d\<close> together with
  \<^verbatim>\<open>d[key]\<close>; \<open>dict_get_default\<close> is \<^verbatim>\<open>d.get(key, dflt)\<close>; \<open>dict_set\<close> is
  \<^verbatim>\<open>d[key] = v\<close>, which keeps the position of a key that is already there and puts
  a new key last; \<open>dict_update\<close> is \<^verbatim>\<open>d.update(other)\<close>.
\<close>

fun dict_get :: "('k \<times> 'v) list \<Rightarrow> 'k \<Rightarrow> 'v option" where
  "dict_get [] key = None"
| "dict_get ((k, v) # rest) key = (if k = key then Some v else dict_get rest key)"

definition dict_get_default :: "('k \<times> 'v) list \<Rightarrow> 'k \<Rightarrow> 'v \<Rightarrow> 'v" where
  "dict_get_default d key dflt = (case dict_get d key of None \<Rightarrow> dflt | Some v \<Rightarrow> v)"

fun dict_set :: "('k \<times> 'v) list \<Rightarrow> 'k \<Rightarrow> 'v \<Rightarrow> ('k \<times> 'v) list" where
  "dict_set [] key val = [(key, val)]"
| "dict_set ((k, v) # rest) key val =
     (if k = key then (k, val) # rest else (k, v) # dict_set rest key val)"

fun dict_update :: "('k \<times> 'v) list \<Rightarrow> ('k \<times> 'v) list \<Rightarrow> ('k \<times> 'v) list" where
  "dict_update d [] = d"
| "dict_update d ((k, v) # other) = dict_update (dict_set d k v) other"

section \<open>Strings and paths\<close>

definition startswith :: "string \<Rightarrow> string \<Rightarrow> bool" where
  "startswith s pre = (take (length pre) s = pre)"

definition endswith :: "string \<Rightarrow> string \<Rightarrow> bool" where
  "endswith s suf = (length suf \<le> length s \<and> drop (length s - length suf) s = suf)"

text \<open>
  \<^verbatim>\<open>s.replace(old, new)\<close>: the occurrences of \<open>old\<close> are found from the left and do
  not overlap. For an empty \<open>old\<close> Python puts \<open>new\<close> before every character and at
  the end.
\<close>

function replace_from :: "string \<Rightarrow> string \<Rightarrow> string \<Rightarrow> string" where
  "replace_from old new [] = []"
| "replace_from old new (c # cs) =
     (if old \<noteq> [] \<and> take (length old) (c # cs) = old
      then new @ replace_from old new (drop (length old) (c # cs))
      else c # replace_from old new cs)"
  by pat_completeness auto
termination
  by (relation "measure (\<lambda>(old, new, s). length s)") auto

definition py_replace :: "string \<Rightarrow> string \<Rightarrow> string \<Rightarrow> string" where
  "py_replace s old new =
     (if old = [] then new @ concat (map (\<lambda>c. c # new) s) else replace_from old new s)"

text \<open>\<^verbatim>\<open>os.path.join(a, b)\<close> on a POSIX system, for two components.\<close>

definition path_join :: "string \<Rightarrow> string \<Rightarrow> string" where
  "path_join a b =
     (if startswith b ''/'' then b
      else if a = [] \<or> endswith a ''/'' then a @ b
      else a @ ''/'' @ b)"

section \<open>The file system\<close>

text \<open>
  The code reads the disk through \<^verbatim>\<open>os.path.isdir\<close>, \<^verbatim>\<open>os.path.exists\<close>,
  \<^verbatim>\<open>os.listdir\<close> and \<^verbatim>\<open>json.load(open(p))\<close>. A path is absent, a directory with
  its entry names (in the arbitrary order \<^verbatim>\<open>os.listdir\<close> gives them), or a file. A
  file is represented by what \<^verbatim>\<open>json.load(open(p))\<close> makes of it: \<open>Some j\<close> when it
  decodes to \<open>j\<close>, \<open>None\<close> when reading or decoding it raises.
\<close>

datatype node = Dir "string list" | File "json option"

type_synonym fs = "string \<Rightarrow> node option"

definition isdir :: "fs \<Rightarrow> string \<Rightarrow> bool" where
  "isdir fs p = (case fs p of Some (Dir names) \<Rightarrow> True | _ \<Rightarrow> False)"

definition exists :: "fs \<Rightarrow> string \<Rightarrow> bool" where
  "exists fs p = (fs p \<noteq> None)"

definition listdir :: "fs \<Rightarrow> string \<Rightarrow> string list" where
  "listdir fs p = (case fs p of Some (Dir names) \<Rightarrow> names | _ \<Rightarrow> [])"

definition json_load :: "fs \<Rightarrow> string \<Rightarrow> py_error + json" where
  "json_load fs p =
     (case fs p of
        None \<Rightarrow> Inl FileNotFoundError
      | Some (Dir names) \<Rightarrow> Inl IsADirectoryError
      | Some (File None) \<Rightarrow> Inl JSONDecodeError
      | Some (File (Some j)) \<Rightarrow> Inr j)"

section \<open>Language\<close>

text \<open>
  The attributes of a \<^verbatim>\<open>Language\<close> object. \<open>data\<close> is \<open>None\<close> while the attribute
  has not been assigned: \<^verbatim>\<open>__init__\<close> never assigns it itself, only
  \<^verbatim>\<open>__read_data\<close> does, on the paths that load something. The attribute
  \<^verbatim>\<open>notes\<close> is the field \<open>notes_field\<close>, as \<open>notes\<close> is reserved in Isabelle.
\<close>

record lang =
  name :: json
  author :: json
  enabled :: json
  notes_field :: json
  location :: json
  locale_code :: string
  data :: "json option"

text \<open>
  The loop of \<^verbatim>\<open>__read_data\<close> over the sorted directory listing, carrying
  \<^verbatim>\<open>aggregated_data\<close> and \<^verbatim>\<open>found_any\<close>. The \<^verbatim>\<open>try\<close> covers the
  \<^verbatim>\<open>json.load\<close> only; \<^verbatim>\<open>ld.get\<close> on a decoded value that is not a dict raises
  \<^verbatim>\<open>AttributeError\<close> outside it. The \<^verbatim>\<open>print\<close> calls write to standard output
  only and are left out.
\<close>

fun read_dir ::
  "fs \<Rightarrow> string \<Rightarrow> string list \<Rightarrow> (string \<times> json) list \<times> bool
     \<Rightarrow> py_error + ((string \<times> json) list \<times> bool)" where
  "read_dir fs loc [] acc = Inr acc"
| "read_dir fs loc (fname # rest) (aggregated_data, found_any) =
     (if \<not> endswith fname ''.json'' then read_dir fs loc rest (aggregated_data, found_any)
      else
        (case json_load fs (path_join loc fname) of
           Inl e \<Rightarrow> read_dir fs loc rest (aggregated_data, found_any)
         | Inr ld \<Rightarrow>
             (case ld of
                JObj items \<Rightarrow>
                  (case dict_get_default items ''data'' (JObj []) of
                     JObj data_piece \<Rightarrow>
                       read_dir fs loc rest (dict_update aggregated_data data_piece, True)
                   | _ \<Rightarrow> read_dir fs loc rest (aggregated_data, True))
              | _ \<Rightarrow> Inl AttributeError)))"

text \<open>
  \<^verbatim>\<open>__read_data\<close>: the result is the value assigned to \<^verbatim>\<open>self.data\<close>, or \<open>None\<close>
  when the method returns without assigning it.
  \<^verbatim>\<open>self.locale_code\<close> occurs in the printed
  messages only, so the method is a function of the disk and the location. In file mode
  the \<^verbatim>\<open>json.load\<close> is not guarded, and the value found under \<^verbatim>\<open>"data"\<close> is
  assigned whatever it is.
\<close>

definition read_data :: "fs \<Rightarrow> string \<Rightarrow> py_error + json option" where
  "read_data fs loc =
     (if isdir fs loc then
        (case read_dir fs loc (sort (listdir fs loc)) ([], False) of
           Inl e \<Rightarrow> Inl e
         | Inr (aggregated_data, found_any) \<Rightarrow>
             if \<not> found_any then Inr None else Inr (Some (JObj aggregated_data)))
      else if exists fs loc then
        (case json_load fs loc of
           Inl e \<Rightarrow> Inl e
         | Inr lang_data \<Rightarrow>
             (case lang_data of
                JObj items \<Rightarrow> Inr (Some (dict_get_default items ''data'' (JObj [])))
              | _ \<Rightarrow> Inl AttributeError))
      else Inr None)"

text \<open>
  \<^verbatim>\<open>Language.__init__\<close>. A \<open>location\<close> that is not a string makes
  \<^verbatim>\<open>os.path.isdir\<close> raise \<^verbatim>\<open>TypeError\<close> (for \<^verbatim>\<open>None\<close>, a list or a dict; a number
  would be taken for a file descriptor, which is outside this model).
\<close>

definition Language_init :: "fs \<Rightarrow> (string \<times> json) list \<Rightarrow> string \<Rightarrow> py_error + lang" where
  "Language_init fs json_metadata code =
     (case dict_get_default json_metadata ''location'' (JStr []) of
        JStr loc \<Rightarrow>
          (case read_data fs loc of
             Inl e \<Rightarrow> Inl e
           | Inr d \<Rightarrow>
               Inr \<lparr> name = dict_get_default json_metadata ''name'' (JStr ''Unknown''),
                     author = dict_get_default json_metadata ''author'' (JStr ''Unknown''),
                     enabled = dict_get_default json_metadata ''enabled'' (JBool False),
                     notes_field = dict_get_default json_metadata ''notes'' (JStr []),
                     location = JStr loc,
                     locale_code = code,
                     data = d \<rparr>)
      | _ \<Rightarrow> Inl TypeError)"

section \<open>LanguageHolder\<close>

text \<open>
  \<^verbatim>\<open>Language\<close> objects are compared by identity (\<^verbatim>\<open>default_lang is self\<close>) and
  mutated in place, so they live in a store and are named by their address. The class
  attributes of \<^verbatim>\<open>LanguageHolder\<close> are the registry \<open>languages\<close> (a dict in
  insertion order, from code to object) and \<open>default_code\<close>.
\<close>

record state =
  heap :: "nat \<Rightarrow> lang"
  next_addr :: nat
  languages :: "(string \<times> nat) list"
  default_code :: string

text \<open>
  \<^verbatim>\<open>get_language\<close>. The second argument of the final \<^verbatim>\<open>.get\<close>,
  \<^verbatim>\<open>next(iter(languages.values()))\<close>, is evaluated before the call and raises
  \<^verbatim>\<open>StopIteration\<close> on an empty registry.
\<close>

definition get_language :: "state \<Rightarrow> string option \<Rightarrow> py_error + nat" where
  "get_language st code =
     (let code' = (case code of None \<Rightarrow> default_code st
                   | Some c \<Rightarrow> if c = [] then default_code st else c)
      in case dict_get (languages st) code' of
           Some l \<Rightarrow> Inr l
         | None \<Rightarrow>
             (case languages st of
                [] \<Rightarrow> Inl StopIteration
              | (c, first) # rest \<Rightarrow>
                  Inr (dict_get_default (languages st) (default_code st) first)))"

text \<open>
  The body of the loop of \<^verbatim>\<open>load_languages\<close> for one manifest item and the loop
  itself. An exception leaves the class attributes as they are at that moment, so the
  state is returned beside the exception. A new \<^verbatim>\<open>Language\<close> object takes the next
  free address of the store.
\<close>

definition store_language :: "state \<Rightarrow> string \<Rightarrow> lang \<Rightarrow> state" where
  "store_language st code l =
     st\<lparr> heap := (heap st)(next_addr st := l),
         next_addr := Suc (next_addr st),
         languages := dict_set (languages st) code (next_addr st) \<rparr>"

fun load_entries :: "fs \<Rightarrow> (string \<times> json) list \<Rightarrow> state \<Rightarrow> py_error option \<times> state" where
  "load_entries fs [] st = (None, st)"
| "load_entries fs ((code, entry) # rest) st =
     (if startswith code ''notes'' then load_entries fs rest st
      else
        (case entry of
           JObj loc_dict \<Rightarrow>
             if dict_get loc_dict ''location'' = None then (Some AssertionError, st)
             else if dict_get loc_dict ''name'' = None then (Some AssertionError, st)
             else
               (let st1 = (if truthy (dict_get_default loc_dict ''is_default'' (JBool False))
                           then st\<lparr>default_code := code\<rparr> else st)
                in case Language_init fs loc_dict code of
                     Inl e \<Rightarrow> (Some e, st1)
                   | Inr l \<Rightarrow> load_entries fs rest (store_language st1 code l))
         | _ \<Rightarrow> (Some AssertionError, st)))"

text \<open>
  \<^verbatim>\<open>load_languages\<close>: the registry is cleared before anything is checked. The first
  component of the result is the exception raised, if any.
\<close>

definition load_languages :: "fs \<Rightarrow> string \<Rightarrow> state \<Rightarrow> py_error option \<times> state" where
  "load_languages fs json_path st =
     (let st0 = st\<lparr>languages := []\<rparr>
      in if \<not> exists fs json_path then (Some FileNotFoundError, st0)
         else
           (case json_load fs json_path of
              Inl e \<Rightarrow> (Some e, st0)
            | Inr locations \<Rightarrow>
                (case locations of
                   JObj items \<Rightarrow> load_entries fs items st0
                 | _ \<Rightarrow> (Some AttributeError, st0))))"

text \<open>
  The three \<^verbatim>\<open>assert\<close> statements of the loop body, negated: the entry is not a
  dict, or has no \<open>location\<close>, or has no \<open>name\<close>.
\<close>

definition entry_invalid :: "json \<Rightarrow> bool" where
  "entry_invalid entry =
     (case entry of
        JObj loc_dict \<Rightarrow>
          dict_get loc_dict ''location'' = None \<or> dict_get loc_dict ''name'' = None
      | _ \<Rightarrow> True)"

text \<open>
  A manifest item that sets \<open>default_code\<close> when the loop processes it: its code does
  not start with \<^verbatim>\<open>notes\<close> and \<^verbatim>\<open>loc_dict.get("is_default", False)\<close> is truthy.
\<close>

definition marks_default :: "string \<times> json \<Rightarrow> bool" where
  "marks_default item =
     (case item of
        (code, entry) \<Rightarrow>
          \<not> startswith code ''notes'' \<and>
          (case entry of
             JObj loc_dict \<Rightarrow> truthy (dict_get_default loc_dict ''is_default'' (JBool False))
           | _ \<Rightarrow> False))"

section \<open>The directory merge as the specification words it\<close>

text \<open>
  For comparison with \<open>read_data\<close>, the specification's description of directory
  mode, written down independently of the loop: each entry whose name ends in
  \<^verbatim>\<open>.json\<close> and that parses contributes the mapping found under its key
  \<^verbatim>\<open>"data"\<close> (nothing if that is absent or not an object); the contributions are
  taken in sorted file name order and a later one overrides an earlier one.
\<close>

definition fragment :: "fs \<Rightarrow> string \<Rightarrow> string \<Rightarrow> (string \<rightharpoonup> json) option" where
  "fragment fs loc fname =
     (if \<not> endswith fname ''.json'' then None
      else
        (case json_load fs (path_join loc fname) of
           Inl e \<Rightarrow> None
         | Inr ld \<Rightarrow>
             (case ld of
                JObj items \<Rightarrow>
                  (case dict_get items ''data'' of
                     Some (JObj data_piece) \<Rightarrow> Some (dict_get data_piece)
                   | _ \<Rightarrow> Some Map.empty)
              | _ \<Rightarrow> Some Map.empty)))"

definition merged_fragments :: "fs \<Rightarrow> string \<Rightarrow> string list \<Rightarrow> (string \<rightharpoonup> json)" where
  "merged_fragments fs loc names =
     foldl (++) Map.empty (List.map_filter (fragment fs loc) (sort names))"

section \<open>Lookup\<close>

text \<open>
  The values of a \<^verbatim>\<open>replacements\<close> dict and \<^verbatim>\<open>str(v)\<close> on them.
\<close>

datatype pyval = PNone | PBool bool | PInt int | PStr string

fun str_nat :: "nat \<Rightarrow> string" where
  "str_nat n =
     (if n < 10 then [''0123456789'' ! n]
      else str_nat (n div 10) @ [''0123456789'' ! (n mod 10)])"

declare str_nat.simps [simp del]

fun py_str :: "pyval \<Rightarrow> string" where
  "py_str PNone = ''None''"
| "py_str (PBool b) = (if b then ''True'' else ''False'')"
| "py_str (PInt i) = (if i < 0 then ''-'' @ str_nat (nat (- i)) else str_nat (nat i))"
| "py_str (PStr s) = s"

text \<open>
  The loop over \<^verbatim>\<open>replacements.items()\<close>, and the guarded loop: \<^verbatim>\<open>if replacements:\<close>
  skips it for \<^verbatim>\<open>None\<close> and for an empty dict.
\<close>

fun replace_items :: "(string \<times> pyval) list \<Rightarrow> string \<Rightarrow> string" where
  "replace_items [] got = got"
| "replace_items ((k, v) # rest) got =
     replace_items rest (py_replace got (''{'' @ k @ ''}'') (py_str v))"

definition apply_replacements :: "(string \<times> pyval) list option \<Rightarrow> string \<Rightarrow> string" where
  "apply_replacements replacements got =
     (case replacements of
        None \<Rightarrow> got
      | Some items \<Rightarrow> if items = [] then got else replace_items items got)"

text \<open>
  The end of the fallback branch of \<^verbatim>\<open>get\<close>, after the default language has
  answered \<open>got\<close>: give up on a falsy answer, otherwise write it into
  \<^verbatim>\<open>self.data[key]\<close>, apply the replacements and return.
\<close>

definition store_fallback ::
  "state \<Rightarrow> nat \<Rightarrow> string \<Rightarrow> string option \<Rightarrow> (string \<times> pyval) list option
     \<Rightarrow> py_error + (state \<times> string option)" where
  "store_fallback st self key got replacements =
     (case got of
        None \<Rightarrow> Inr (st, None)
      | Some g \<Rightarrow>
          if g = [] then Inr (st, None)
          else
            (case data (heap st self) of
               None \<Rightarrow> Inl AttributeError
             | Some (JObj d) \<Rightarrow>
                 Inr (st\<lparr>heap := (heap st)
                            (self := (heap st self)\<lparr>data := Some (JObj (dict_set d key (JStr g)))\<rparr>)\<rparr>,
                      Some (apply_replacements replacements g))
             | Some _ \<Rightarrow> Inl TypeError))"

text \<open>
  \<^verbatim>\<open>Language.get\<close> on the object at address \<open>self\<close>. \<open>dflt\<close> is the argument
  \<^verbatim>\<open>default\<close>. The result is the exception, or the state after the call with the
  returned string (\<open>None\<close> for Python's \<^verbatim>\<open>None\<close>). Reading \<^verbatim>\<open>self.data\<close> raises
  \<^verbatim>\<open>AttributeError\<close> when the attribute was never assigned, and so does
  \<^verbatim>\<open>.get\<close> on a value that is not a dict.
\<close>

function get ::
  "state \<Rightarrow> nat \<Rightarrow> string \<Rightarrow> string option \<Rightarrow> (string \<times> pyval) list option
     \<Rightarrow> py_error + (state \<times> string option)" where
  "get st self key dflt replacements =
     (case data (heap st self) of
        None \<Rightarrow> Inl AttributeError
      | Some (JObj d) \<Rightarrow>
          (let got = dict_get_default d key (case dflt of None \<Rightarrow> JNull | Some s \<Rightarrow> JStr s)
           in if \<not> truthy got \<or> \<not> is_str got then
                (case dflt of
                   None \<Rightarrow>
                     (case get_language st None of
                        Inl e \<Rightarrow> Inl e
                      | Inr default_lang \<Rightarrow>
                          if default_lang = self then Inr (st, None)
                          else
                            (case get st default_lang key None replacements of
                               Inl e \<Rightarrow> Inl e
                             | Inr (st', got') \<Rightarrow>
                                 store_fallback st' self key got' replacements))
                 | Some s \<Rightarrow> Inr (st, Some (apply_replacements replacements s)))
              else Inr (st, Some (apply_replacements replacements (str_of got))))
      | Some _ \<Rightarrow> Inl AttributeError)"
  by pat_completeness auto
termination
  by (relation "measure (\<lambda>(st, self, key, dflt, replacements).
                   if get_language st None = Inr self then 0 else 1)") auto

declare get.simps [simp del]

text \<open>
  The same method with a bound on the depth of the call stack: \<open>get_fuel n\<close> is
  \<open>None\<close> when answering needs more than \<open>n\<close> nested activations of \<^verbatim>\<open>get\<close>.
\<close>

fun get_fuel ::
  "nat \<Rightarrow> state \<Rightarrow> nat \<Rightarrow> string \<Rightarrow> string option \<Rightarrow> (string \<times> pyval) list option
     \<Rightarrow> (py_error + (state \<times> string option)) option" where
  "get_fuel 0 st self key dflt replacements = None"
| "get_fuel (Suc n) st self key dflt replacements =
     (case data (heap st self) of
        None \<Rightarrow> Some (Inl AttributeError)
      | Some (JObj d) \<Rightarrow>
          (let got = dict_get_default d key (case dflt of None \<Rightarrow> JNull | Some s \<Rightarrow> JStr s)
           in if \<not> truthy got \<or> \<not> is_str got then
                (case dflt of
                   None \<Rightarrow>
                     (case get_language st None of
                        Inl e \<Rightarrow> Some (Inl e)
                      | Inr default_lang \<Rightarrow>
                          if default_lang = self then Some (Inr (st, None))
                          else
                            (case get_fuel n st default_lang key None replacements of
                               None \<Rightarrow> None
                             | Some (Inl e) \<Rightarrow> Some (Inl e)
                             | Some (Inr (st', got')) \<Rightarrow>
                                 Some (store_fallback st' self key got' replacements)))
                 | Some s \<Rightarrow> Some (Inr (st, Some (apply_replacements replacements s))))
              else Some (Inr (st, Some (apply_replacements replacements (str_of got)))))
      | Some _ \<Rightarrow> Some (Inl AttributeError))"

declare get_fuel.simps [simp del]

section \<open>Example configurations\<close>

text \<open>
  Concrete stores, registries and file systems on which the results below are
  exercised. \<open>init_state\<close> is the state of the class attributes when the module has
  just been imported: an empty registry and the built-in default code.
\<close>

definition blank_lang :: lang where
  "blank_lang =
     \<lparr> name = JStr ''Unknown'', author = JStr ''Unknown'', enabled = JBool False,
       notes_field = JStr [], location = JStr [], locale_code = [], data = None \<rparr>"

definition init_state :: state where
  "init_state =
     \<lparr> heap = (\<lambda>a. blank_lang), next_addr = 0, languages = [], default_code = ''en_us'' \<rparr>"

text \<open>
  A registry with French and English (the default), where French lacks the key
  \<open>greeting\<close> and stores an empty string under \<open>title\<close>; and a registry that has
  an entry under the empty code beside English.
\<close>

definition fr_lang :: lang where
  "fr_lang =
     blank_lang\<lparr> name := JStr ''French'', locale_code := ''fr'',
       data := Some (JObj [(''bye'', JStr ''Au revoir''), (''title'', JStr [])]) \<rparr>"

definition en_lang :: lang where
  "en_lang =
     blank_lang\<lparr> name := JStr ''English'', locale_code := ''en_us'',
       data := Some (JObj [(''greeting'', JStr ''Hello {name}''),
                           (''title'', JStr ''Welcome'')]) \<rparr>"

definition two_langs :: state where
  "two_langs =
     \<lparr> heap = (\<lambda>a. blank_lang)(0 := fr_lang, 1 := en_lang), next_addr = 2,
       languages = [(''fr'', 0), (''en_us'', 1)], default_code = ''en_us'' \<rparr>"

definition empty_code_langs :: state where
  "empty_code_langs = init_state\<lparr> next_addr := 2, languages := [([], 0), (''en_us'', 1)] \<rparr>"

text \<open>
  The directory of the specification's merge example, listed in the order b, a.
\<close>

definition merge_fs :: fs where
  "merge_fs =
     [''lang/fr'' \<mapsto> Dir [''b.json'', ''a.json''],
      ''lang/fr/a.json'' \<mapsto>
         File (Some (JObj [(''data'', JObj [(''x'', JStr ''1''), (''y'', JStr ''2'')])])),
      ''lang/fr/b.json'' \<mapsto>
         File (Some (JObj [(''data'', JObj [(''y'', JStr ''3'')])]))]"

text \<open>
  A manifest with one language whose directory holds a proper file and a file that
  contains the JSON array \<^verbatim>\<open>[]\<close>.
\<close>

definition array_fs :: fs where
  "array_fs =
     [''language.json'' \<mapsto>
         File (Some (JObj [(''fr'', JObj [(''location'', JStr ''lang/fr''),
                                         (''name'', JStr ''French'')])])),
      ''lang/fr'' \<mapsto> Dir [''a.json'', ''b.json''],
      ''lang/fr/a.json'' \<mapsto>
         File (Some (JObj [(''data'', JObj [(''bye'', JStr ''Au revoir'')])])),
      ''lang/fr/b.json'' \<mapsto> File (Some (JArr []))]"

text \<open>
  A manifest with English (default, loaded from a file), a language \<open>xx\<close> whose
  location does not exist and a language \<open>yy\<close> whose directory has no JSON file; and
  the state that loading it from the initial state leaves.
\<close>

definition missing_fs :: fs where
  "missing_fs =
     [''language.json'' \<mapsto>
         File (Some (JObj
           [(''en_us'', JObj [(''location'', JStr ''lang/en_us.json''),
                              (''name'', JStr ''English''), (''is_default'', JBool True)]),
            (''xx'', JObj [(''location'', JStr ''lang/xx.json''), (''name'', JStr ''Nowhere'')]),
            (''yy'', JObj [(''location'', JStr ''lang/yy''), (''name'', JStr ''Empty'')])])),
      ''lang/en_us.json'' \<mapsto>
         File (Some (JObj [(''data'', JObj [(''greeting'', JStr ''Hello'')])])),
      ''lang/yy'' \<mapsto> Dir [''README.txt'']]"

definition missing_loaded :: state where
  "missing_loaded = snd (load_languages missing_fs ''language.json'' init_state)"

text \<open>
  A manifest whose only language is a single file that does not parse; the same file
  system also has a directory with one file that does not parse and one that does.
\<close>

definition malformed_fs :: fs where
  "malformed_fs =
     [''language.json'' \<mapsto>
         File (Some (JObj [(''en_us'', JObj [(''location'', JStr ''lang/en_us.json''),
                                            (''name'', JStr ''English'')])])),
      ''lang/en_us.json'' \<mapsto> File None,
      ''lang/fr'' \<mapsto> Dir [''ok.json'', ''bad.json''],
      ''lang/fr/bad.json'' \<mapsto> File None,
      ''lang/fr/ok.json'' \<mapsto>
         File (Some (JObj [(''data'', JObj [(''bye'', JStr ''Au revoir'')])]))]"

text \<open>
  No file at all, and a manifest whose second entry has no \<open>location\<close>, after a
  German entry marked as default.
\<close>

definition no_files :: fs where
  "no_files = Map.empty"

definition de_lang :: lang where
  "de_lang =
     \<lparr> name = JStr ''German'', author = JStr ''Unknown'', enabled = JBool False,
       notes_field = JStr [], location = JStr ''lang/de.json'', locale_code = ''de'',
       data = Some (JObj [(''greeting'', JStr ''Hallo'')]) \<rparr>"

definition half_fs :: fs where
  "half_fs =
     [''language.json'' \<mapsto>
         File (Some (JObj
           [(''de'', JObj [(''location'', JStr ''lang/de.json''),
                           (''name'', JStr ''German''), (''is_default'', JBool True)]),
            (''it'', JObj [(''name'', JStr ''Italian'')]),
            (''fr'', JObj [(''location'', JStr ''lang/fr.json''), (''name'', JStr ''French'')])])),
      ''lang/de.json'' \<mapsto>
         File (Some (JObj [(''data'', JObj [(''greeting'', JStr ''Hallo'')])]))]"

section \<open>Dictionary facts\<close>

lemma dict_get_in_set: "dict_get d k = Some a \<Longrightarrow> (k, a) \<in> set d"
  by (induction d) (auto split: if_splits)

section \<open>Resolving a locale\<close>

lemma get_language_member:
  "get_language st code = Inr l \<Longrightarrow> l \<in> snd ` set (languages st)"
  apply (auto simp: get_language_def Let_def dict_get_default_def
              split: option.splits list.splits if_splits dest!: dict_get_in_set)
   apply force+
  done

lemma get_language_raises_iff:
  "(\<exists>e. get_language st code = Inl e) \<longleftrightarrow> languages st = []"
  by (auto simp: get_language_def Let_def split: option.splits list.splits)

text \<open>
  C7, as the code has it. \<^verbatim>\<open>get_language\<close> raises exactly when the registry is
  empty. On a registry with at least one entry it returns an object of the registry
  for every argument: the entry of the requested code when that code is a non-empty
  string with an entry; otherwise (the argument is \<^verbatim>\<open>None\<close> or empty, in which case
  \<open>default_code\<close> takes its place, or the code has no entry) the entry of
  \<open>default_code\<close> if there is one, and else the first entry of the registry.
\<close>

theorem get_language_resolves:
  "((\<exists>e. get_language st code = Inl e) \<longleftrightarrow> languages st = []) \<and>
   (languages st \<noteq> [] \<longrightarrow>
      (\<exists>l. get_language st code = Inr l \<and> l \<in> snd ` set (languages st)) \<and>
      get_language st code =
        Inr (case dict_get (languages st)
                    (case code of None \<Rightarrow> default_code st
                     | Some c \<Rightarrow> if c = [] then default_code st else c) of
               Some l \<Rightarrow> l
             | None \<Rightarrow>
                 (case dict_get (languages st) (default_code st) of
                    Some l \<Rightarrow> l
                  | None \<Rightarrow> snd (hd (languages st)))))"
proof (intro conjI impI)
  show "(\<exists>e. get_language st code = Inl e) \<longleftrightarrow> languages st = []"
    by (rule get_language_raises_iff)
next
  assume ne: "languages st \<noteq> []"
  then obtain l where l: "get_language st code = Inr l"
    using get_language_raises_iff [of st code] by (cases "get_language st code") auto
  have "l \<in> snd ` set (languages st)"
    by (rule get_language_member [OF l])
  with l show "\<exists>l. get_language st code = Inr l \<and> l \<in> snd ` set (languages st)"
    by blast
next
  assume ne: "languages st \<noteq> []"
  then show "get_language st code =
        Inr (case dict_get (languages st)
                    (case code of None \<Rightarrow> default_code st
                     | Some c \<Rightarrow> if c = [] then default_code st else c) of
               Some l \<Rightarrow> l
             | None \<Rightarrow>
                 (case dict_get (languages st) (default_code st) of
                    Some l \<Rightarrow> l
                  | None \<Rightarrow> snd (hd (languages st))))"
    by (auto simp: get_language_def Let_def dict_get_default_def
             split: option.splits list.splits)
qed

theorem get_language_resolves_witness:
  "languages two_langs \<noteq> [] \<and>
   get_language two_langs (Some ''fr'') = Inr 0 \<and>
   get_language two_langs (Some ''de'') = Inr 1 \<and>
   get_language two_langs None = Inr 1 \<and>
   get_language (two_langs\<lparr>default_code := ''de''\<rparr>) (Some ''it'') = Inr 0"
  using get_language_resolves [of two_langs "Some ''fr''"]
    get_language_resolves [of two_langs "Some ''de''"]
    get_language_resolves [of two_langs None]
    get_language_resolves [of "two_langs\<lparr>default_code := ''de''\<rparr>" "Some ''it''"]
  by (simp add: two_langs_def get_language_def dict_get_default_def)

text \<open>
  The claim as worded also promises the entry of the requested code for an empty code.
  With an entry registered under the empty code, \<^verbatim>\<open>get_language("")\<close> does not
  return it: the empty code is replaced by \<open>default_code\<close> first.
\<close>

theorem get_language_empty_code_counterexample:
  "dict_get (languages empty_code_langs) [] = Some 0 \<and>
   get_language empty_code_langs (Some []) = Inr 1"
  by (simp add: empty_code_langs_def init_state_def get_language_def dict_get_default_def)

section \<open>Lookup\<close>

lemma usable_iff: "(truthy v \<and> is_str v) \<longleftrightarrow> (\<exists>s. v = JStr s \<and> s \<noteq> [])"
  by (cases v) auto

lemma dict_get_dict_set:
  "dict_get (dict_set d k v) k' = (if k' = k then Some v else dict_get d k')"
  by (induction d) auto

lemma get_own_value:
  "data (heap st self) = Some (JObj d) \<Longrightarrow> dict_get d key = Some (JStr s) \<Longrightarrow> s \<noteq> [] \<Longrightarrow>
   get st self key dflt r = Inr (st, Some (apply_replacements r s))"
  by (simp add: get.simps dict_get_default_def)

lemma get_on_default:
  assumes "get_language st None = Inr self" and "data (heap st self) = Some (JObj d)"
    and "\<forall>s. dict_get d key = Some (JStr s) \<longrightarrow> s = []"
  shows "get st self key None r = Inr (st, None)"
proof -
  let ?got = "dict_get_default d key JNull"
  have "\<not> (truthy ?got \<and> is_str ?got)"
    using assms(3) by (auto simp: usable_iff dict_get_default_def split: option.splits)
  then show ?thesis
    using assms(1,2) by (subst get.simps) (auto simp: Let_def)
qed

lemma get_via_fallback:
  assumes "get_language st None = Inr dl" and "dl \<noteq> self"
    and "data (heap st self) = Some (JObj d)"
    and "\<forall>s. dict_get d key = Some (JStr s) \<longrightarrow> s = []"
  shows "get st self key None r =
           (case get st dl key None r of
              Inl e \<Rightarrow> Inl e
            | Inr (st', got') \<Rightarrow> store_fallback st' self key got' r)"
proof -
  let ?got = "dict_get_default d key JNull"
  have "\<not> (truthy ?got \<and> is_str ?got)"
    using assms(4) by (auto simp: usable_iff dict_get_default_def split: option.splits)
  then show ?thesis
    using assms(1,2,3) by (subst get.simps) (auto simp: Let_def)
qed

lemma get_fuel_on_default:
  "get_language st None = Inr self \<Longrightarrow>
   get_fuel (Suc n) st self key dflt r = Some (get st self key dflt r)"
  by (subst get.simps, subst get_fuel.simps)
     (simp add: Let_def split: option.splits json.splits)

lemma get_fuel_enough:
  "get_fuel (Suc (Suc n)) st self key dflt r = Some (get st self key dflt r)"
proof (cases "get_language st None")
  case (Inl e)
  then show ?thesis
    by (subst get.simps, subst get_fuel.simps)
       (simp add: Let_def split: option.splits json.splits)
next
  case (Inr dl)
  have inner: "get_fuel (Suc n) st dl key None r = Some (get st dl key None r)"
    by (rule get_fuel_on_default [OF Inr])
  show ?thesis
    by (subst get.simps, subst get_fuel.simps)
       (simp add: Inr inner Let_def split: option.splits json.splits sum.splits prod.splits)
qed

text \<open>
  C4, as the code has it. When the value stored under the key in the language's own
  data is a non-empty string, \<^verbatim>\<open>get\<close> returns that string (verbatim when no
  replacements are given, with the replacements applied otherwise), changes nothing,
  and does not look at the registry: the result is the same for every registry and
  default code, an empty registry included. Other stored values (an empty string, a
  value that is not a string) do not stop at the own data.
\<close>

theorem get_own_nonempty_string:
  "data (heap st self) = Some (JObj d) \<and> dict_get d key = Some (JStr s) \<and> s \<noteq> [] \<longrightarrow>
     get st self key None None = Inr (st, Some s) \<and>
     get st self key None r = Inr (st, Some (apply_replacements r s)) \<and>
     (\<forall>regs dc. get (st\<lparr>languages := regs, default_code := dc\<rparr>) self key None None =
                   Inr (st\<lparr>languages := regs, default_code := dc\<rparr>, Some s))"
proof (intro impI, elim conjE, intro conjI allI)
  assume own: "data (heap st self) = Some (JObj d)"
    and val: "dict_get d key = Some (JStr s)" and ne: "s \<noteq> []"
  show "get st self key None None = Inr (st, Some s)"
    using get_own_value [OF own val ne, of None None] by (simp add: apply_replacements_def)
  show "get st self key None r = Inr (st, Some (apply_replacements r s))"
    by (rule get_own_value [OF own val ne])
  fix regs dc
  have "data (heap (st\<lparr>languages := regs, default_code := dc\<rparr>) self) = Some (JObj d)"
    using own by simp
  from get_own_value [OF this val ne, of None None]
  show "get (st\<lparr>languages := regs, default_code := dc\<rparr>) self key None None =
          Inr (st\<lparr>languages := regs, default_code := dc\<rparr>, Some s)"
    by (simp add: apply_replacements_def)
qed

theorem get_own_nonempty_string_witness:
  "data (heap two_langs 0) = Some (JObj [(''bye'', JStr ''Au revoir''), (''title'', JStr [])]) \<and>
   dict_get [(''bye'', JStr ''Au revoir''), (''title'', JStr [])] ''bye''
     = Some (JStr ''Au revoir'') \<and>
   ''Au revoir'' \<noteq> [] \<and>
   get two_langs 0 ''bye'' None None = Inr (two_langs, Some ''Au revoir'') \<and>
   get (two_langs\<lparr>languages := [], default_code := []\<rparr>) 0 ''bye'' None None =
     Inr (two_langs\<lparr>languages := [], default_code := []\<rparr>, Some ''Au revoir'')"
  using get_own_nonempty_string [of two_langs 0
      "[(''bye'', JStr ''Au revoir''), (''title'', JStr [])]" "''bye''" "''Au revoir''" None]
  by (simp add: two_langs_def fr_lang_def)

text \<open>
  The claim as worded promises the stored value whatever it is. French stores the
  empty string under \<open>title\<close>; \<^verbatim>\<open>get("title")\<close> on it consults the default language,
  returns the English string and overwrites the stored value with it.
\<close>

theorem get_stored_empty_string_counterexample:
  "data (heap two_langs 0) = Some (JObj [(''bye'', JStr ''Au revoir''), (''title'', JStr [])]) \<and>
   get two_langs 0 ''title'' None None =
     Inr (two_langs\<lparr>heap := (heap two_langs)
            (0 := fr_lang\<lparr>data := Some (JObj [(''bye'', JStr ''Au revoir''),
                                               (''title'', JStr ''Welcome'')])\<rparr>)\<rparr>,
          Some ''Welcome'')"
  by (simp add: get.simps two_langs_def fr_lang_def en_lang_def get_language_def
      dict_get_default_def store_fallback_def apply_replacements_def)

text \<open>
  C5. Let the key be absent from the data of a language that is not the one the
  registry resolves as default, and let the default language store a non-empty string
  under it. Then \<^verbatim>\<open>get(key)\<close> returns that string and the only change to the state
  is that the calling object now stores the string under the key. From then on, in
  every state in which the calling object still has this data (whatever has happened
  to the default language's data, the registry or the default code in between),
  \<^verbatim>\<open>get(key)\<close> on it returns the same string and changes nothing.
\<close>

theorem get_fallback_cached:
  assumes "get_language st None = Inr dl" and "dl \<noteq> self"
    and "data (heap st self) = Some (JObj d)" and "dict_get d key = None"
    and "data (heap st dl) = Some (JObj dd)"
    and "dict_get dd key = Some (JStr s)" and "s \<noteq> []"
  shows "get st self key None None =
           Inr (st\<lparr>heap := (heap st)
                  (self := (heap st self)\<lparr>data := Some (JObj (dict_set d key (JStr s)))\<rparr>)\<rparr>,
                Some s) \<and>
         (\<forall>st2. data (heap st2 self) = Some (JObj (dict_set d key (JStr s))) \<longrightarrow>
            get st2 self key None None = Inr (st2, Some s))"
proof (intro conjI allI impI)
  have absent: "\<forall>s. dict_get d key = Some (JStr s) \<longrightarrow> s = []"
    using assms(4) by simp
  have "get st dl key None None = Inr (st, Some s)"
    using get_own_value [OF assms(5,6,7), of None None] by (simp add: apply_replacements_def)
  then show "get st self key None None =
           Inr (st\<lparr>heap := (heap st)
                  (self := (heap st self)\<lparr>data := Some (JObj (dict_set d key (JStr s)))\<rparr>)\<rparr>,
                Some s)"
    using assms(3,7)
    by (simp add: get_via_fallback [OF assms(1,2,3) absent] store_fallback_def
        apply_replacements_def)
next
  fix st2 :: state
  assume own: "data (heap st2 self) = Some (JObj (dict_set d key (JStr s)))"
  show "get st2 self key None None = Inr (st2, Some s)"
    using assms(7)
    by (simp add: get_own_value [OF own] dict_get_dict_set apply_replacements_def)
qed

text \<open>
  On the example registry: French answers \<open>greeting\<close> from English and keeps the
  answer, also after English has lost all its data and the registry has been emptied.
\<close>

theorem get_fallback_cached_witness:
  "get_language two_langs None = Inr 1 \<and> (1::nat) \<noteq> 0 \<and>
   data (heap two_langs 0) = Some (JObj [(''bye'', JStr ''Au revoir''), (''title'', JStr [])]) \<and>
   dict_get [(''bye'', JStr ''Au revoir''), (''title'', JStr [])] ''greeting'' = None \<and>
   get two_langs 0 ''greeting'' None None =
     Inr (two_langs\<lparr>heap := (heap two_langs)
            (0 := fr_lang\<lparr>data := Some (JObj [(''bye'', JStr ''Au revoir''),
                                               (''title'', JStr []),
                                               (''greeting'', JStr ''Hello {name}'')])\<rparr>)\<rparr>,
          Some ''Hello {name}'') \<and>
   get (two_langs\<lparr>heap := (heap two_langs)
          (0 := fr_lang\<lparr>data := Some (JObj [(''bye'', JStr ''Au revoir''),
                                             (''title'', JStr []),
                                             (''greeting'', JStr ''Hello {name}'')])\<rparr>,
           1 := en_lang\<lparr>data := Some (JObj [])\<rparr>),
          languages := []\<rparr>) 0 ''greeting'' None None =
     Inr (two_langs\<lparr>heap := (heap two_langs)
            (0 := fr_lang\<lparr>data := Some (JObj [(''bye'', JStr ''Au revoir''),
                                               (''title'', JStr []),
                                               (''greeting'', JStr ''Hello {name}'')])\<rparr>,
             1 := en_lang\<lparr>data := Some (JObj [])\<rparr>),
            languages := []\<rparr>,
          Some ''Hello {name}'')"
  using get_fallback_cached [of two_langs 1 0
      "[(''bye'', JStr ''Au revoir''), (''title'', JStr [])]" "''greeting''"
      "[(''greeting'', JStr ''Hello {name}''), (''title'', JStr ''Welcome'')]"
      "''Hello {name}''"]
  by (simp add: two_langs_def fr_lang_def en_lang_def get_language_def dict_get_default_def)

text \<open>
  C6. \<^verbatim>\<open>get\<close> is a total function: its definition above is accepted with a proof
  that the recursion ends, for every state, object, key, default and replacements. The
  recursion is at most one level deep: a call stack of two activations always suffices
  and gives the result of \<^verbatim>\<open>get\<close>. On the object that the registry resolves as the
  default language, for a key that its data does not have and no default argument,
  \<^verbatim>\<open>get\<close> returns \<^verbatim>\<open>None\<close> and changes nothing.
\<close>

theorem get_terminates:
  "get_fuel (Suc (Suc n)) st self key dflt r = Some (get st self key dflt r) \<and>
   (get_language st None = Inr self \<and> data (heap st self) = Some (JObj d) \<and>
    dict_get d key = None \<longrightarrow>
      get st self key None r = Inr (st, None))"
proof (intro conjI impI)
  show "get_fuel (Suc (Suc n)) st self key dflt r = Some (get st self key dflt r)"
    by (rule get_fuel_enough)
next
  assume h: "get_language st None = Inr self \<and> data (heap st self) = Some (JObj d) \<and>
    dict_get d key = None"
  then have "\<forall>s. dict_get d key = Some (JStr s) \<longrightarrow> s = []" by simp
  with h show "get st self key None r = Inr (st, None)"
    by (blast intro: get_on_default)
qed

theorem get_terminates_witness:
  "get_language two_langs None = Inr 1 \<and>
   data (heap two_langs 1) =
     Some (JObj [(''greeting'', JStr ''Hello {name}''), (''title'', JStr ''Welcome'')]) \<and>
   dict_get [(''greeting'', JStr ''Hello {name}''), (''title'', JStr ''Welcome'')] ''bye''
     = None \<and>
   get two_langs 1 ''bye'' None None = Inr (two_langs, None) \<and>
   get_fuel 2 two_langs 1 ''bye'' None None = Some (Inr (two_langs, None))"
  using get_terminates [of 0 two_langs 1 "''bye''" None None
      "[(''greeting'', JStr ''Hello {name}''), (''title'', JStr ''Welcome'')]"]
  by (simp add: two_langs_def en_lang_def get_language_def dict_get_default_def
      numeral_2_eq_2)

text \<open>
  C9. Let \<^verbatim>\<open>get(key, replacements=r)\<close> on a language that is not the resolved default
  find no usable value of its own (the key is absent, or stored with an empty string or
  a value that is not a string), and let the default language store the non-empty
  template \<open>t\<close> under the key, with a non-empty result of the substitution. Then the
  value written into the calling object's data under the key is \<open>t\<close> with the
  replacements \<open>r\<close> applied (the returned string has them applied once more); and
  every later \<^verbatim>\<open>get(key, replacements=r2)\<close> on an object with this data applies
  \<open>r2\<close> to the substituted string, not to \<open>t\<close>.
\<close>

theorem get_fallback_caches_substituted:
  assumes "get_language st None = Inr dl" and "dl \<noteq> self"
    and "data (heap st self) = Some (JObj d)"
    and "\<forall>s. dict_get d key = Some (JStr s) \<longrightarrow> s = []"
    and "data (heap st dl) = Some (JObj dd)"
    and "dict_get dd key = Some (JStr t)" and "t \<noteq> []"
    and "apply_replacements r t \<noteq> []"
  shows "get st self key None r =
           Inr (st\<lparr>heap := (heap st)(self := (heap st self)
                     \<lparr>data := Some (JObj (dict_set d key (JStr (apply_replacements r t))))\<rparr>)\<rparr>,
                Some (apply_replacements r (apply_replacements r t))) \<and>
         (\<forall>st2 r2. data (heap st2 self) =
                      Some (JObj (dict_set d key (JStr (apply_replacements r t)))) \<longrightarrow>
            get st2 self key None r2 =
              Inr (st2, Some (apply_replacements r2 (apply_replacements r t))))"
proof (intro conjI allI impI)
  have "get st dl key None r = Inr (st, Some (apply_replacements r t))"
    using assms(5,6,7) by (rule get_own_value)
  then show "get st self key None r =
           Inr (st\<lparr>heap := (heap st)(self := (heap st self)
                     \<lparr>data := Some (JObj (dict_set d key (JStr (apply_replacements r t))))\<rparr>)\<rparr>,
                Some (apply_replacements r (apply_replacements r t)))"
    using assms(3,8) by (simp add: get_via_fallback [OF assms(1-4)] store_fallback_def)
next
  fix st2 :: state and r2 :: "(string \<times> pyval) list option"
  assume own: "data (heap st2 self) =
                 Some (JObj (dict_set d key (JStr (apply_replacements r t))))"
  show "get st2 self key None r2 =
          Inr (st2, Some (apply_replacements r2 (apply_replacements r t)))"
    using assms(8) by (simp add: get_own_value [OF own] dict_get_dict_set)
qed

text \<open>
  On the example registry, with \<open>name\<close> set to Alice: French caches
  \<open>Hello Alice\<close>, and a later request for Bob is answered with \<open>Hello Alice\<close>.
\<close>

theorem get_fallback_caches_substituted_witness:
  "get_language two_langs None = Inr 1 \<and> (1::nat) \<noteq> 0 \<and>
   data (heap two_langs 0) = Some (JObj [(''bye'', JStr ''Au revoir''), (''title'', JStr [])]) \<and>
   dict_get [(''bye'', JStr ''Au revoir''), (''title'', JStr [])] ''greeting'' = None \<and>
   apply_replacements (Some [(''name'', PStr ''Alice'')]) ''Hello {name}'' = ''Hello Alice'' \<and>
   get two_langs 0 ''greeting'' None (Some [(''name'', PStr ''Alice'')]) =
     Inr (two_langs\<lparr>heap := (heap two_langs)
            (0 := fr_lang\<lparr>data := Some (JObj [(''bye'', JStr ''Au revoir''),
                                               (''title'', JStr []),
                                               (''greeting'', JStr ''Hello Alice'')])\<rparr>)\<rparr>,
          Some ''Hello Alice'') \<and>
   get (two_langs\<lparr>heap := (heap two_langs)
          (0 := fr_lang\<lparr>data := Some (JObj [(''bye'', JStr ''Au revoir''),
                                             (''title'', JStr []),
                                             (''greeting'', JStr ''Hello Alice'')])\<rparr>)\<rparr>)
       0 ''greeting'' None (Some [(''name'', PStr ''Bob'')]) =
     Inr (two_langs\<lparr>heap := (heap two_langs)
            (0 := fr_lang\<lparr>data := Some (JObj [(''bye'', JStr ''Au revoir''),
                                               (''title'', JStr []),
                                               (''greeting'', JStr ''Hello Alice'')])\<rparr>)\<rparr>,
          Some ''Hello Alice'')"
  using get_fallback_caches_substituted [of two_langs 1 0
      "[(''bye'', JStr ''Au revoir''), (''title'', JStr [])]" "''greeting''"
      "[(''greeting'', JStr ''Hello {name}''), (''title'', JStr ''Welcome'')]"
      "''Hello {name}''" "Some [(''name'', PStr ''Alice'')]"]
  by (simp add: two_langs_def fr_lang_def en_lang_def get_language_def dict_get_default_def
      apply_replacements_def py_replace_def)

section \<open>Loading\<close>

lemma dict_get_absent: "k \<notin> fst ` set d \<Longrightarrow> dict_get d k = None"
  by (induction d) auto

lemma dict_get_dict_update:
  "distinct (map fst p) \<Longrightarrow> dict_get (dict_update d p) = dict_get d ++ dict_get p"
proof (induction p arbitrary: d)
  case Nil
  show ?case by (simp add: fun_eq_iff map_add_def)
next
  case (Cons kv p)
  obtain k v where kv: "kv = (k, v)" by (cases kv)
  from Cons.prems kv have k: "dict_get p k = None" and dist: "distinct (map fst p)"
    by (auto intro: dict_get_absent)
  have "dict_get (dict_update d (kv # p)) = dict_get (dict_set d k v) ++ dict_get p"
    using Cons.IH [OF dist] kv by simp
  also have "\<dots> = dict_get d ++ dict_get (kv # p)"
    using k kv by (auto simp: fun_eq_iff map_add_def dict_get_dict_set split: option.splits)
  finally show ?case .
qed

lemma read_dir_raises:
  assumes "fname \<in> set names" and "endswith fname ''.json''"
    and "json_load fs (path_join loc fname) = Inr j" and "\<not> is_dict j"
  shows "read_dir fs loc names acc = Inl AttributeError"
  using assms(1)
proof (induction names arbitrary: acc)
  case Nil
  then show ?case by simp
next
  case (Cons f rest)
  obtain agg found where acc: "acc = (agg, found)" by (cases acc)
  show ?case
  proof (cases "f = fname")
    case True
    then show ?thesis
      using assms(2,3,4) acc by (cases j) simp_all
  next
    case False
    with Cons.prems have "fname \<in> set rest" by simp
    then have "\<And>acc. read_dir fs loc rest acc = Inl AttributeError" by (rule Cons.IH)
    then show ?thesis
      using acc by (simp split: sum.splits json.splits)
  qed
qed

lemma read_dir_merges:
  assumes "\<forall>f\<in>set names. \<forall>j. endswith f ''.json'' \<and> json_load fs (path_join loc f) = Inr j
             \<longrightarrow> is_dict j"
    and "\<forall>f\<in>set names. \<forall>items p. json_load fs (path_join loc f) = Inr (JObj items) \<and>
             dict_get items ''data'' = Some (JObj p) \<longrightarrow> distinct (map fst p)"
  shows "\<exists>agg'. read_dir fs loc names (agg, found) =
                  Inr (agg', found \<or> (\<exists>f\<in>set names. fragment fs loc f \<noteq> None)) \<and>
                dict_get agg' =
                  foldl (++) (dict_get agg) (List.map_filter (fragment fs loc) names)"
  using assms
proof (induction names arbitrary: agg found)
  case Nil
  then show ?case by (simp add: map_filter_simps)
next
  case (Cons f rest)
  have p1: "\<forall>f\<in>set rest. \<forall>j. endswith f ''.json'' \<and> json_load fs (path_join loc f) = Inr j
             \<longrightarrow> is_dict j"
    using Cons.prems(1) by simp
  have p2: "\<forall>f\<in>set rest. \<forall>items p. json_load fs (path_join loc f) = Inr (JObj items) \<and>
             dict_get items ''data'' = Some (JObj p) \<longrightarrow> distinct (map fst p)"
    using Cons.prems(2) by auto
  note IH = Cons.IH [OF p1 p2]
  show ?case
  proof (cases "fragment fs loc f")
    case None
    then have skip: "read_dir fs loc (f # rest) (agg, found) = read_dir fs loc rest (agg, found)"
      by (auto simp: fragment_def split: if_splits sum.splits json.splits option.splits)
    show ?thesis
      using IH [of agg found] None by (simp add: skip map_filter_simps del: read_dir.simps)
  next
    case (Some m)
    then have ends: "endswith f ''.json''"
      by (simp add: fragment_def split: if_splits)
    from Some obtain ld where ld: "json_load fs (path_join loc f) = Inr ld"
      by (auto simp: fragment_def split: if_splits sum.splits)
    with ends Cons.prems(1) have "is_dict ld" by simp
    then obtain items where items: "ld = JObj items" by (cases ld) simp_all
    show ?thesis
    proof (cases "\<exists>p. dict_get items ''data'' = Some (JObj p)")
      case True
      then obtain p where p: "dict_get items ''data'' = Some (JObj p)" by blast
      have dist: "distinct (map fst p)"
        using Cons.prems(2) ld items p by simp
      have m: "m = dict_get p"
        using Some ends ld items p by (simp add: fragment_def)
      have step: "read_dir fs loc (f # rest) (agg, found) =
                    read_dir fs loc rest (dict_update agg p, True)"
        using ends ld items p by (simp add: dict_get_default_def)
      show ?thesis
        using IH [of "dict_update agg p" True] Some m
        by (simp add: step map_filter_simps dict_get_dict_update [OF dist] del: read_dir.simps)
    next
      case False
      have m: "m = Map.empty"
        using Some ends ld items False
        by (auto simp: fragment_def split: option.splits json.splits)
      have step: "read_dir fs loc (f # rest) (agg, found) = read_dir fs loc rest (agg, True)"
        using ends ld items False
        by (auto simp: dict_get_default_def split: option.splits json.splits)
      show ?thesis
        using IH [of agg True] Some m by (simp add: step map_filter_simps del: read_dir.simps)
    qed
  qed
qed

text \<open>
  C8. Let the location be a directory in which every \<^verbatim>\<open>.json\<close> file that parses
  holds an object (whose \<^verbatim>\<open>"data"\<close> object, like every dict, has no key twice), and
  at least one such file parses. Then loading succeeds and \<open>data\<close> is a dict that
  maps every key as the specification's merge does: the \<^verbatim>\<open>"data"\<close> objects of the
  parsed files, taken in sorted file name order, a later file overriding an earlier
  one.
\<close>

theorem directory_merge:
  assumes "fs loc = Some (Dir names)"
    and "\<forall>f\<in>set names. \<forall>j. endswith f ''.json'' \<and> json_load fs (path_join loc f) = Inr j
             \<longrightarrow> is_dict j"
    and "\<forall>f\<in>set names. \<forall>items p. json_load fs (path_join loc f) = Inr (JObj items) \<and>
             dict_get items ''data'' = Some (JObj p) \<longrightarrow> distinct (map fst p)"
    and "\<exists>f\<in>set names. fragment fs loc f \<noteq> None"
  shows "\<exists>agg. read_data fs loc = Inr (Some (JObj agg)) \<and>
               dict_get agg = merged_fragments fs loc names"
proof -
  have s1: "\<forall>f\<in>set (sort names). \<forall>j. endswith f ''.json'' \<and>
              json_load fs (path_join loc f) = Inr j \<longrightarrow> is_dict j"
    using assms(2) by simp
  have s2: "\<forall>f\<in>set (sort names). \<forall>items p. json_load fs (path_join loc f) = Inr (JObj items) \<and>
             dict_get items ''data'' = Some (JObj p) \<longrightarrow> distinct (map fst p)"
    using assms(3) by simp
  from read_dir_merges [OF s1 s2, of "[]" False] obtain agg where
    rd: "read_dir fs loc (sort names) ([], False) =
           Inr (agg, \<exists>f\<in>set (sort names). fragment fs loc f \<noteq> None)"
    and m: "dict_get agg = foldl (++) (dict_get []) (List.map_filter (fragment fs loc) (sort names))"
    by auto
  have e: "dict_get ([] :: (string \<times> json) list) = Map.empty"
    by (simp add: fun_eq_iff)
  have "read_data fs loc = Inr (Some (JObj agg))"
    using assms(1,4) rd by (simp add: read_data_def isdir_def listdir_def)
  moreover have "dict_get agg = merged_fragments fs loc names"
    using m e by (simp add: merged_fragments_def)
  ultimately show ?thesis by blast
qed


text \<open>
  The specification's example: \<^verbatim>\<open>a.json\<close> with \<open>x = 1, y = 2\<close> and \<^verbatim>\<open>b.json\<close>
  with \<open>y = 3\<close> give exactly \<open>x = 1, y = 3\<close>.
\<close>

theorem directory_merge_witness:
  "merge_fs ''lang/fr'' = Some (Dir [''b.json'', ''a.json'']) \<and>
   (\<exists>f\<in>set [''b.json'', ''a.json'']. fragment merge_fs ''lang/fr'' f \<noteq> None) \<and>
   read_data merge_fs ''lang/fr'' = Inr (Some (JObj [(''x'', JStr ''1''), (''y'', JStr ''3'')])) \<and>
   dict_get [(''x'', JStr ''1''), (''y'', JStr ''3'')] =
     merged_fragments merge_fs ''lang/fr'' [''b.json'', ''a.json'']"
  using directory_merge [of merge_fs "''lang/fr''" "[''b.json'', ''a.json'']"]
  by (simp add: read_data_def merge_fs_def isdir_def listdir_def endswith_def json_load_def
      path_join_def startswith_def dict_get_default_def fragment_def)

lemma load_entries_append:
  "load_entries fs (pre @ xs) st =
     (case load_entries fs pre st of
        (None, st1) \<Rightarrow> load_entries fs xs st1
      | (Some e, st1) \<Rightarrow> (Some e, st1))"
proof (induction pre arbitrary: st)
  case Nil
  show ?case by simp
next
  case (Cons x pre)
  obtain code entry where x: "x = (code, entry)" by (cases x)
  show ?case
    unfolding x by (simp add: Cons.IH Let_def split: json.splits sum.splits)
qed

text \<open>
  C10. In directory mode, a file named \<^verbatim>\<open>*.json\<close> that parses to a value that is
  not an object is not skipped: \<^verbatim>\<open>__read_data\<close> raises \<^verbatim>\<open>AttributeError\<close>, so
  does the construction of a \<^verbatim>\<open>Language\<close> with this location, and so does a
  \<^verbatim>\<open>load_languages\<close> call whose manifest reaches an entry with this location.
\<close>

theorem non_object_file_aborts:
  assumes "fs loc = Some (Dir names)" and "fname \<in> set names"
    and "endswith fname ''.json''"
    and "json_load fs (path_join loc fname) = Inr j" and "\<not> is_dict j"
  shows "read_data fs loc = Inl AttributeError \<and>
         (dict_get json_metadata ''location'' = Some (JStr loc) \<longrightarrow>
            Language_init fs json_metadata code = Inl AttributeError) \<and>
         (dict_get json_metadata ''location'' = Some (JStr loc) \<and>
          dict_get json_metadata ''name'' \<noteq> None \<and> \<not> startswith code ''notes'' \<and>
          json_load fs json_path = Inr (JObj (pre @ (code, JObj json_metadata) # rest)) \<and>
          fst (load_entries fs pre (st\<lparr>languages := []\<rparr>)) = None \<longrightarrow>
            fst (load_languages fs json_path st) = Some AttributeError)"
proof -
  have "fname \<in> set (sort names)" using assms(2) by simp
  then have "read_dir fs loc (sort names) ([], False) = Inl AttributeError"
    using assms(3,4,5) by (rule read_dir_raises)
  then have rd: "read_data fs loc = Inl AttributeError"
    using assms(1) by (simp add: read_data_def isdir_def listdir_def)
  have init: "Language_init fs json_metadata code = Inl AttributeError"
    if "dict_get json_metadata ''location'' = Some (JStr loc)"
    using that rd by (simp add: Language_init_def dict_get_default_def)
  have "fst (load_languages fs json_path st) = Some AttributeError"
    if h: "dict_get json_metadata ''location'' = Some (JStr loc) \<and>
          dict_get json_metadata ''name'' \<noteq> None \<and> \<not> startswith code ''notes'' \<and>
          json_load fs json_path = Inr (JObj (pre @ (code, JObj json_metadata) # rest)) \<and>
          fst (load_entries fs pre (st\<lparr>languages := []\<rparr>)) = None"
  proof -
    from h have ex: "exists fs json_path"
      by (auto simp: exists_def json_load_def split: option.splits)
    obtain st1 where pre: "load_entries fs pre (st\<lparr>languages := []\<rparr>) = (None, st1)"
      using h by (cases "load_entries fs pre (st\<lparr>languages := []\<rparr>)") auto
    have "fst (load_entries fs ((code, JObj json_metadata) # rest) st1) = Some AttributeError"
      using h init by (auto simp: Let_def)
    then show ?thesis
      using h ex pre by (simp add: load_languages_def load_entries_append del: load_entries.simps)
  qed
  with rd init show ?thesis by blast
qed

text \<open>
  A directory with a proper file and a file holding the array \<^verbatim>\<open>[]\<close>.
\<close>

theorem non_object_file_aborts_witness:
  "array_fs ''lang/fr'' = Some (Dir [''a.json'', ''b.json'']) \<and>
   ''b.json'' \<in> set [''a.json'', ''b.json''] \<and> endswith ''b.json'' ''.json'' \<and>
   json_load array_fs (path_join ''lang/fr'' ''b.json'') = Inr (JArr []) \<and>
   \<not> is_dict (JArr []) \<and>
   read_data array_fs ''lang/fr'' = Inl AttributeError \<and>
   Language_init array_fs [(''location'', JStr ''lang/fr''), (''name'', JStr ''French'')] ''fr''
     = Inl AttributeError \<and>
   fst (load_languages array_fs ''language.json'' init_state) = Some AttributeError"
  using non_object_file_aborts [of array_fs "''lang/fr''" "[''a.json'', ''b.json'']" "''b.json''"
      "JArr []" "[(''location'', JStr ''lang/fr''), (''name'', JStr ''French'')]" "''fr''"
      "''language.json''" "[]" "[]" init_state]
  by (simp add: array_fs_def endswith_def json_load_def path_join_def startswith_def)

section \<open>Languages without data\<close>

lemma missing_loaded_eq:
  "load_languages missing_fs ''language.json'' init_state =
     (None,
      \<lparr> heap = (\<lambda>a. blank_lang)
          (0 := \<lparr> name = JStr ''English'', author = JStr ''Unknown'', enabled = JBool False,
                  notes_field = JStr [], location = JStr ''lang/en_us.json'',
                  locale_code = ''en_us'',
                  data = Some (JObj [(''greeting'', JStr ''Hello'')]) \<rparr>,
           1 := \<lparr> name = JStr ''Nowhere'', author = JStr ''Unknown'', enabled = JBool False,
                  notes_field = JStr [], location = JStr ''lang/xx.json'',
                  locale_code = ''xx'', data = None \<rparr>,
           2 := \<lparr> name = JStr ''Empty'', author = JStr ''Unknown'', enabled = JBool False,
                  notes_field = JStr [], location = JStr ''lang/yy'',
                  locale_code = ''yy'', data = None \<rparr>),
        next_addr = 3,
        languages = [(''en_us'', 0), (''xx'', 1), (''yy'', 2)],
        default_code = ''en_us'' \<rparr>)"
  by (simp add: load_languages_def missing_fs_def init_state_def exists_def json_load_def
      startswith_def Language_init_def read_data_def isdir_def listdir_def endswith_def
      dict_get_default_def store_language_def numeral_2_eq_2 numeral_3_eq_3)

text \<open>
  C2. The claim is that \<^verbatim>\<open>get\<close> on a language whose location does not exist, or
  whose directory has no usable JSON file, does not raise and answers from the default
  language. The code does not do that. After loading a manifest with English (the
  default, which has \<open>greeting\<close>), a language \<open>xx\<close> with a missing location and a
  language \<open>yy\<close> with an empty directory, the load succeeds and both objects are in
  the registry with \<open>data\<close> never assigned; \<^verbatim>\<open>get("greeting")\<close> on either raises
  \<^verbatim>\<open>AttributeError\<close>, with or without a default argument, while English answers.
\<close>

theorem unloaded_language_get_raises:
  "fst (load_languages missing_fs ''language.json'' init_state) = None \<and>
   languages missing_loaded = [(''en_us'', 0), (''xx'', 1), (''yy'', 2)] \<and>
   get_language missing_loaded None = Inr 0 \<and>
   data (heap missing_loaded 1) = None \<and>
   data (heap missing_loaded 2) = None \<and>
   get missing_loaded 0 ''greeting'' None None = Inr (missing_loaded, Some ''Hello'') \<and>
   get missing_loaded 1 ''greeting'' None None = Inl AttributeError \<and>
   get missing_loaded 2 ''greeting'' None None = Inl AttributeError \<and>
   get missing_loaded 1 ''greeting'' (Some ''Hi'') None = Inl AttributeError"
  by (simp add: missing_loaded_def missing_loaded_eq get.simps get_language_def
      dict_get_default_def apply_replacements_def)

text \<open>
  C3. The claim is that a file that does not parse never makes the construction of a
  \<^verbatim>\<open>Language\<close> raise, a single-file location included. In the code only the
  directory loop guards \<^verbatim>\<open>json.load\<close>: a single-file location that exists and does
  not parse raises out of \<^verbatim>\<open>__read_data\<close>, out of the constructor and out of
  \<^verbatim>\<open>load_languages\<close>, while the same kind of file inside a directory is skipped.
\<close>

theorem single_file_parse_error_raises:
  "read_data malformed_fs ''lang/en_us.json'' = Inl JSONDecodeError \<and>
   Language_init malformed_fs
     [(''location'', JStr ''lang/en_us.json''), (''name'', JStr ''English'')] ''en_us''
     = Inl JSONDecodeError \<and>
   load_languages malformed_fs ''language.json'' init_state = (Some JSONDecodeError, init_state) \<and>
   read_data malformed_fs ''lang/fr'' = Inr (Some (JObj [(''bye'', JStr ''Au revoir'')]))"
  by (simp add: malformed_fs_def init_state_def load_languages_def exists_def json_load_def
      startswith_def Language_init_def read_data_def isdir_def listdir_def endswith_def
      dict_get_default_def path_join_def)

section \<open>Failing loads\<close>

lemma read_dir_error: "read_dir fs loc names acc = Inl e \<Longrightarrow> e = AttributeError"
  by (induction fs loc names acc rule: read_dir.induct)
     (auto split: if_splits sum.splits json.splits)

lemma read_data_no_assertion: "read_data fs loc \<noteq> Inl AssertionError"
  by (auto simp: read_data_def json_load_def
           split: if_splits sum.splits json.splits option.splits node.splits prod.splits
           dest: read_dir_error)

lemma Language_init_no_assertion: "Language_init fs meta code \<noteq> Inl AssertionError"
  using read_data_no_assertion
  by (auto simp: Language_init_def split: json.splits sum.splits)

lemma load_entries_assertion:
  "load_entries fs items st = (Some AssertionError, st') \<Longrightarrow>
   \<exists>pre code entry rest. items = pre @ (code, entry) # rest \<and> \<not> startswith code ''notes'' \<and>
      entry_invalid entry \<and> load_entries fs pre st = (None, st')"
proof (induction items arbitrary: st)
  case Nil
  then show ?case by simp
next
  case (Cons x items)
  obtain code entry where x: "x = (code, entry)" by (cases x)
  show ?case
  proof (cases "startswith code ''notes''")
    case True
    with Cons.prems x have "load_entries fs items st = (Some AssertionError, st')" by simp
    from Cons.IH [OF this] obtain pre c e rest where
      "items = pre @ (c, e) # rest" "\<not> startswith c ''notes''" "entry_invalid e"
      "load_entries fs pre st = (None, st')" by blast
    with True x have "x # items = (x # pre) @ (c, e) # rest \<and> \<not> startswith c ''notes'' \<and>
      entry_invalid e \<and> load_entries fs (x # pre) st = (None, st')" by simp
    then show ?thesis by blast
  next
    case nn: False
    show ?thesis
    proof (cases "entry_invalid entry")
      case True
      then have "load_entries fs (x # items) st = (Some AssertionError, st)"
        using nn x by (auto simp: entry_invalid_def split: json.splits)
      with Cons.prems have "st' = st" by simp
      with True nn x have "x # items = [] @ (code, entry) # items \<and>
        \<not> startswith code ''notes'' \<and> entry_invalid entry \<and> load_entries fs [] st = (None, st')"
        by simp
      then show ?thesis by blast
    next
      case False
      then obtain loc_dict where e: "entry = JObj loc_dict"
        and loc: "dict_get loc_dict ''location'' \<noteq> None"
        and nm: "dict_get loc_dict ''name'' \<noteq> None"
        by (auto simp: entry_invalid_def split: json.splits)
      define st1 where "st1 = (if truthy (dict_get_default loc_dict ''is_default'' (JBool False))
                           then st\<lparr>default_code := code\<rparr> else st)"
      obtain l where l: "Language_init fs loc_dict code = Inr l"
        using Cons.prems x nn e loc nm Language_init_no_assertion [of fs loc_dict code]
        by (cases "Language_init fs loc_dict code") (auto simp: Let_def)
      have step: "load_entries fs (x # xs) st = load_entries fs xs (store_language st1 code l)"
        for xs
        using x nn e loc nm l by (auto simp: Let_def st1_def)
      from Cons.prems have "load_entries fs items (store_language st1 code l)
                              = (Some AssertionError, st')"
        by (simp only: step)
      from Cons.IH [OF this] obtain pre c e' rest where
        "items = pre @ (c, e') # rest" "\<not> startswith c ''notes''" "entry_invalid e'"
        "load_entries fs pre (store_language st1 code l) = (None, st')" by blast
      then have "x # items = (x # pre) @ (c, e') # rest \<and> \<not> startswith c ''notes'' \<and>
        entry_invalid e' \<and> load_entries fs (x # pre) st = (None, st')"
        by (simp only: step) simp
      then show ?thesis by blast
    qed
  qed
qed

lemma dict_set_map_fst:
  "map fst (dict_set d k v) = (if k \<in> set (map fst d) then map fst d else map fst d @ [k])"
  by (induction d) (force simp: image_iff)+

lemma dict_set_keys: "fst ` set (dict_set d k v) = insert k (fst ` set d)"
  using arg_cong [OF dict_set_map_fst [of d k v], of set] by (auto split: if_splits)

lemma dict_set_subset: "set (dict_set d k v) \<subseteq> insert (k, v) (set d)"
  by (induction d) (auto split: if_splits)

lemma load_entries_Cons_ok:
  assumes "load_entries fs ((code, entry) # rest) st = (None, st')"
  shows "(startswith code ''notes'' \<and> load_entries fs rest st = (None, st')) \<or>
         (\<not> startswith code ''notes'' \<and>
          (\<exists>loc_dict l. entry = JObj loc_dict \<and> Language_init fs loc_dict code = Inr l \<and>
             load_entries fs rest
               (store_language
                  (if marks_default (code, entry) then st\<lparr>default_code := code\<rparr> else st)
                  code l) = (None, st')))"
  using assms
  by (auto simp: Let_def marks_default_def split: if_splits json.splits sum.splits)

lemma load_entries_heap:
  "load_entries fs xs st = (None, st') \<Longrightarrow>
   next_addr st \<le> next_addr st' \<and> (\<forall>a < next_addr st. heap st' a = heap st a)"
proof (induction xs arbitrary: st)
  case Nil
  then show ?case by simp
next
  case (Cons x xs)
  obtain code entry where x: "x = (code, entry)" by (cases x)
  from load_entries_Cons_ok [OF Cons.prems [unfolded x]]
  show ?case
  proof (elim disjE conjE exE)
    assume "load_entries fs xs st = (None, st')"
    then show ?thesis by (rule Cons.IH)
  next
    fix loc_dict l
    assume "load_entries fs xs (store_language
              (if marks_default (code, entry) then st\<lparr>default_code := code\<rparr> else st)
              code l) = (None, st')"
    from Cons.IH [OF this] show ?thesis
      by (auto simp: store_language_def split: if_splits)
  qed
qed

lemma load_entries_codes:
  "load_entries fs xs st = (None, st') \<Longrightarrow>
   fst ` set (languages st') =
     fst ` set (languages st) \<union> {c \<in> fst ` set xs. \<not> startswith c ''notes''}"
proof (induction xs arbitrary: st)
  case Nil
  then show ?case by simp
next
  case (Cons x xs)
  obtain code entry where x: "x = (code, entry)" by (cases x)
  from load_entries_Cons_ok [OF Cons.prems [unfolded x]]
  show ?case
  proof (elim disjE conjE exE)
    assume "startswith code ''notes''" "load_entries fs xs st = (None, st')"
    with Cons.IH [of st] x show ?thesis by auto
  next
    fix loc_dict l
    assume n: "\<not> startswith code ''notes''"
      and "load_entries fs xs (store_language
              (if marks_default (code, entry) then st\<lparr>default_code := code\<rparr> else st)
              code l) = (None, st')"
    from Cons.IH [OF this(2)] n x show ?thesis
      by (auto simp: store_language_def dict_set_keys split: if_splits)
  qed
qed

lemma load_entries_default_code:
  "load_entries fs xs st = (None, st') \<Longrightarrow>
   default_code st' =
     (case filter marks_default xs of [] \<Rightarrow> default_code st | m # ms \<Rightarrow> fst (last (m # ms)))"
proof (induction xs arbitrary: st)
  case Nil
  then show ?case by simp
next
  case (Cons x xs)
  obtain code entry where x: "x = (code, entry)" by (cases x)
  from load_entries_Cons_ok [OF Cons.prems [unfolded x]]
  show ?case
  proof (elim disjE conjE exE)
    assume "startswith code ''notes''" "load_entries fs xs st = (None, st')"
    with Cons.IH [of st] x show ?thesis by (simp add: marks_default_def)
  next
    fix loc_dict l
    assume "load_entries fs xs (store_language
              (if marks_default (code, entry) then st\<lparr>default_code := code\<rparr> else st)
              code l) = (None, st')"
    from Cons.IH [OF this] x show ?thesis
      by (auto simp: store_language_def split: list.splits)
  qed
qed

lemma load_entries_registered:
  "load_entries fs xs st = (None, st') \<Longrightarrow> (c, a) \<in> set (languages st') \<Longrightarrow>
   (c, a) \<in> set (languages st) \<or>
   (next_addr st \<le> a \<and> a < next_addr st' \<and>
    (\<exists>loc_dict. (c, JObj loc_dict) \<in> set xs \<and> Language_init fs loc_dict c = Inr (heap st' a)))"
proof (induction xs arbitrary: st)
  case Nil
  then show ?case by simp
next
  case (Cons x xs)
  obtain code entry where x: "x = (code, entry)" by (cases x)
  from load_entries_Cons_ok [OF Cons.prems(1) [unfolded x]]
  show ?case
  proof (elim disjE conjE exE)
    assume "load_entries fs xs st = (None, st')"
    from Cons.IH [OF this Cons.prems(2)] show ?thesis by auto
  next
    fix loc_dict l
    assume e: "entry = JObj loc_dict" and l: "Language_init fs loc_dict code = Inr l"
    define st2 where "st2 = store_language
              (if marks_default (code, entry) then st\<lparr>default_code := code\<rparr> else st) code l"
    assume "load_entries fs xs (store_language
              (if marks_default (code, entry) then st\<lparr>default_code := code\<rparr> else st)
              code l) = (None, st')"
    then have r: "load_entries fs xs st2 = (None, st')" by (simp add: st2_def)
    have n2: "next_addr st2 = Suc (next_addr st)" and h2: "heap st2 (next_addr st) = l"
      and regs: "set (languages st2) \<subseteq> insert (code, next_addr st) (set (languages st))"
      using dict_set_subset [of "languages st" code "next_addr st"]
      by (auto simp: st2_def store_language_def)
    from load_entries_heap [OF r] have le: "next_addr st2 \<le> next_addr st'"
      and stable: "\<forall>a < next_addr st2. heap st' a = heap st2 a" by auto
    from Cons.IH [OF r Cons.prems(2)] show ?thesis
    proof
      assume "(c, a) \<in> set (languages st2)"
      with regs have "(c, a) \<in> set (languages st) \<or> (c = code \<and> a = next_addr st)" by auto
      then show ?thesis
      proof
        assume "c = code \<and> a = next_addr st"
        moreover have "heap st' (next_addr st) = l" using stable n2 h2 by simp
        ultimately show ?thesis using n2 le l e x by auto
      qed simp
    next
      assume "next_addr st2 \<le> a \<and> a < next_addr st' \<and>
        (\<exists>loc_dict. (c, JObj loc_dict) \<in> set xs \<and> Language_init fs loc_dict c = Inr (heap st' a))"
      then show ?thesis using n2 by auto
    qed
  qed
qed


text \<open>
  C1, as the code has it. \<^verbatim>\<open>load_languages\<close> clears the registry before it checks
  anything and never restores it. When the manifest path does not exist, it raises
  \<^verbatim>\<open>FileNotFoundError\<close> and the state afterwards is the old one with an empty
  registry (\<open>default_code\<close> unchanged). When it raises \<^verbatim>\<open>AssertionError\<close>, the
  manifest has an entry that is not a note and fails the validation, and the state
  afterwards is the one that loading the entries before it into the cleared registry
  produces. In that state the registered codes are exactly the codes of those earlier
  entries that are not notes; each is bound to an object allocated by this call, which
  is the \<^verbatim>\<open>Language\<close> constructed from an entry of that code; and
  \<open>default_code\<close> is the code of the last earlier entry marked \<^verbatim>\<open>is_default\<close>,
  or unchanged when there is none.
\<close>

theorem load_languages_failure_state:
  "(\<not> exists fs json_path \<longrightarrow>
      load_languages fs json_path st = (Some FileNotFoundError, st\<lparr>languages := []\<rparr>)) \<and>
   (fst (load_languages fs json_path st) = Some AssertionError \<longrightarrow>
      (\<exists>items pre code entry rest.
         json_load fs json_path = Inr (JObj items) \<and>
         items = pre @ (code, entry) # rest \<and>
         \<not> startswith code ''notes'' \<and> entry_invalid entry \<and>
         load_entries fs pre (st\<lparr>languages := []\<rparr>) =
           (None, snd (load_languages fs json_path st)) \<and>
         fst ` set (languages (snd (load_languages fs json_path st))) =
           {c \<in> fst ` set pre. \<not> startswith c ''notes''} \<and>
         (\<forall>(c, a) \<in> set (languages (snd (load_languages fs json_path st))).
            next_addr st \<le> a \<and>
            (\<exists>loc_dict. (c, JObj loc_dict) \<in> set pre \<and>
               Language_init fs loc_dict c =
                 Inr (heap (snd (load_languages fs json_path st)) a))) \<and>
         default_code (snd (load_languages fs json_path st)) =
           (case filter marks_default pre of
              [] \<Rightarrow> default_code st
            | m # ms \<Rightarrow> fst (last (m # ms)))))"
proof (intro conjI impI)
  assume "\<not> exists fs json_path"
  then show "load_languages fs json_path st = (Some FileNotFoundError, st\<lparr>languages := []\<rparr>)"
    by (simp add: load_languages_def)
next
  let ?st' = "snd (load_languages fs json_path st)"
  assume a: "fst (load_languages fs json_path st) = Some AssertionError"
  then obtain items where items: "json_load fs json_path = Inr (JObj items)"
    and ex: "exists fs json_path"
    by (auto simp: load_languages_def Let_def json_load_def exists_def
             split: if_splits sum.splits json.splits option.splits node.splits)
  then have ll: "load_languages fs json_path st = load_entries fs items (st\<lparr>languages := []\<rparr>)"
    by (simp add: load_languages_def)
  with a have "load_entries fs items (st\<lparr>languages := []\<rparr>) = (Some AssertionError, ?st')"
    by (cases "load_entries fs items (st\<lparr>languages := []\<rparr>)") simp
  from load_entries_assertion [OF this] obtain pre code entry rest where
    split: "items = pre @ (code, entry) # rest" and nn: "\<not> startswith code ''notes''"
    and inv: "entry_invalid entry"
    and pre: "load_entries fs pre (st\<lparr>languages := []\<rparr>) = (None, ?st')"
    by blast
  have codes: "fst ` set (languages ?st') = {c \<in> fst ` set pre. \<not> startswith c ''notes''}"
    using load_entries_codes [OF pre] by simp
  have fresh: "\<forall>(c, a) \<in> set (languages ?st').
            next_addr st \<le> a \<and>
            (\<exists>loc_dict. (c, JObj loc_dict) \<in> set pre \<and>
               Language_init fs loc_dict c = Inr (heap ?st' a))"
    using load_entries_registered [OF pre] by auto
  have dc: "default_code ?st' =
           (case filter marks_default pre of
              [] \<Rightarrow> default_code st
            | m # ms \<Rightarrow> fst (last (m # ms)))"
    using load_entries_default_code [OF pre] by (simp cong: list.case_cong)
  from items split nn inv pre codes fresh dc
  show "\<exists>items pre code entry rest.
         json_load fs json_path = Inr (JObj items) \<and>
         items = pre @ (code, entry) # rest \<and>
         \<not> startswith code ''notes'' \<and> entry_invalid entry \<and>
         load_entries fs pre (st\<lparr>languages := []\<rparr>) = (None, ?st') \<and>
         fst ` set (languages ?st') = {c \<in> fst ` set pre. \<not> startswith c ''notes''} \<and>
         (\<forall>(c, a) \<in> set (languages ?st').
            next_addr st \<le> a \<and>
            (\<exists>loc_dict. (c, JObj loc_dict) \<in> set pre \<and>
               Language_init fs loc_dict c = Inr (heap ?st' a))) \<and>
         default_code ?st' =
           (case filter marks_default pre of
              [] \<Rightarrow> default_code st
            | m # ms \<Rightarrow> fst (last (m # ms)))"
    by blast
qed

lemma half_loaded_eq:
  "load_languages half_fs ''language.json'' two_langs =
     (Some AssertionError,
      two_langs\<lparr> heap := (heap two_langs)(2 := de_lang), next_addr := 3,
                 languages := [(''de'', 2)], default_code := ''de'' \<rparr>)"
  by (simp add: load_languages_def half_fs_def two_langs_def de_lang_def exists_def
      json_load_def startswith_def Language_init_def read_data_def isdir_def listdir_def
      endswith_def dict_get_default_def store_language_def numeral_2_eq_2 numeral_3_eq_3)

text \<open>
  The claim as worded fails on both kinds of failure. With French and English
  registered, a missing manifest leaves an empty registry; a manifest whose second
  entry lacks \<open>location\<close> leaves a registry with the first entry only and has
  already changed \<open>default_code\<close>.
\<close>

theorem load_languages_not_atomic_counterexample:
  "fst (load_languages no_files ''language.json'' two_langs) = Some FileNotFoundError \<and>
   languages two_langs = [(''fr'', 0), (''en_us'', 1)] \<and>
   languages (snd (load_languages no_files ''language.json'' two_langs)) = [] \<and>
   fst (load_languages half_fs ''language.json'' two_langs) = Some AssertionError \<and>
   languages (snd (load_languages half_fs ''language.json'' two_langs)) = [(''de'', 2)] \<and>
   default_code two_langs = ''en_us'' \<and>
   default_code (snd (load_languages half_fs ''language.json'' two_langs)) = ''de''"
  by (simp add: half_loaded_eq)
     (simp add: load_languages_def no_files_def exists_def two_langs_def)

theorem load_languages_failure_state_witness:
  "\<not> exists no_files ''language.json'' \<and>
   load_languages no_files ''language.json'' two_langs =
     (Some FileNotFoundError, two_langs\<lparr>languages := []\<rparr>) \<and>
   fst (load_languages half_fs ''language.json'' two_langs) = Some AssertionError \<and>
   json_load half_fs ''language.json'' =
     Inr (JObj ([(''de'', JObj [(''location'', JStr ''lang/de.json''),
                                (''name'', JStr ''German''), (''is_default'', JBool True)])]
                @ (''it'', JObj [(''name'', JStr ''Italian'')])
                # [(''fr'', JObj [(''location'', JStr ''lang/fr.json''),
                                  (''name'', JStr ''French'')])])) \<and>
   \<not> startswith ''it'' ''notes'' \<and>
   entry_invalid (JObj [(''name'', JStr ''Italian'')]) \<and>
   load_entries half_fs
     [(''de'', JObj [(''location'', JStr ''lang/de.json''),
                     (''name'', JStr ''German''), (''is_default'', JBool True)])]
     (two_langs\<lparr>languages := []\<rparr>) =
     (None, snd (load_languages half_fs ''language.json'' two_langs)) \<and>
   languages (snd (load_languages half_fs ''language.json'' two_langs)) = [(''de'', 2)] \<and>
   next_addr two_langs = 2 \<and>
   Language_init half_fs
     [(''location'', JStr ''lang/de.json''), (''name'', JStr ''German''),
      (''is_default'', JBool True)] ''de'' =
     Inr (heap (snd (load_languages half_fs ''language.json'' two_langs)) 2) \<and>
   heap (snd (load_languages half_fs ''language.json'' two_langs)) 2 = de_lang \<and>
   marks_default (''de'', JObj [(''location'', JStr ''lang/de.json''),
                     (''name'', JStr ''German''), (''is_default'', JBool True)]) \<and>
   default_code two_langs = ''en_us'' \<and>
   default_code (snd (load_languages half_fs ''language.json'' two_langs)) = ''de''"
  using load_languages_failure_state [of no_files "''language.json''" two_langs]
    load_languages_failure_state [of half_fs "''language.json''" two_langs]
  by (simp add: half_loaded_eq)
     (simp add: no_files_def exists_def half_fs_def two_langs_def de_lang_def json_load_def
      startswith_def entry_invalid_def Language_init_def read_data_def isdir_def
      dict_get_default_def store_language_def marks_default_def)

end
